theory Spec2Isabelle
  imports Main "HOL-Library.Word"
begin

section \<open>Data model of \<^verbatim>\<open>include/intrusive_ptr.h\<close>\<close>

text \<open>
  An object of a class derived from \<^verbatim>\<open>RefCountObject\<close> lives on the free store at an
  address. A raw pointer \<^verbatim>\<open>T*\<close> is an optional address: \<open>None\<close> is \<^verbatim>\<open>nullptr\<close>.
  The class \<^verbatim>\<open>T\<close> is the test suite's \<^verbatim>\<open>Object\<close>: the base's private counter
  \<^verbatim>\<open>uint32_t m_ref_count\<close> and the public member \<^verbatim>\<open>int Value\<close> (32 bits, read
  as two's complement by \<open>sint\<close>).
\<close>

type_synonym addr = nat

record Object =
  m_ref_count :: "32 word"
  Value :: "32 word"

text \<open>
  An \<^verbatim>\<open>intrusive_ptr\<close> instance is named by its own address (what \<^verbatim>\<open>this\<close> and
  \<^verbatim>\<open>&other\<close> compare); its only member is \<^verbatim>\<open>T* m_pointer\<close>. The store holds the
  live objects and the member of every pointer instance.
\<close>

type_synonym ptr_id = nat

record store =
  objects :: "addr \<rightharpoonup> Object"
  m_pointer :: "ptr_id \<Rightarrow> addr option"

text \<open>
  Dereferencing \<^verbatim>\<open>nullptr\<close> or a pointer to an object that was deleted is undefined
  behaviour in the source; the model returns it as a fault.
\<close>

datatype fault = Null_Dereference | Use_After_Free

section \<open>\<^verbatim>\<open>RefCountObject\<close> and the two free functions\<close>

text \<open>\<^verbatim>\<open>uint32_t m_ref_count { 0 }\<close>, then \<^verbatim>\<open>Object(int value) : Value(value)\<close>.\<close>

definition Object_ctor :: "32 word \<Rightarrow> Object" where
  "Object_ctor v = \<lparr>m_ref_count = 0, Value = v\<rparr>"

text \<open>
  \<^verbatim>\<open>new Object(value)\<close>. The address the allocator returns is the parameter \<open>a\<close>
  (an address that holds no live object).
\<close>

definition new_Object :: "addr \<Rightarrow> 32 word \<Rightarrow> store \<Rightarrow> store" where
  "new_Object a v s = s\<lparr>objects := (objects s)(a \<mapsto> Object_ctor v)\<rparr>"

definition ReferenceCount :: "Object \<Rightarrow> 32 word" where
  "ReferenceCount ob = m_ref_count ob"

text \<open>\<^verbatim>\<open>++(ptr->m_ref_count)\<close>\<close>

definition intrusive_ptr_add_ref :: "addr option \<Rightarrow> store \<Rightarrow> fault + store" where
  "intrusive_ptr_add_ref ptr s =
     (case ptr of
        None \<Rightarrow> Inl Null_Dereference
      | Some a \<Rightarrow>
          (case objects s a of
             None \<Rightarrow> Inl Use_After_Free
           | Some ob \<Rightarrow>
               Inr (s\<lparr>objects := (objects s)(a \<mapsto> ob\<lparr>m_ref_count := m_ref_count ob + 1\<rparr>)\<rparr>)))"

text \<open>
  \<^verbatim>\<open>if (--(ptr->m_ref_count) == 0) delete static_cast<const Derived*>(ptr);\<close>
  Deleting removes the object from the store.
\<close>

definition intrusive_ptr_release :: "addr option \<Rightarrow> store \<Rightarrow> fault + store" where
  "intrusive_ptr_release ptr s =
     (case ptr of
        None \<Rightarrow> Inl Null_Dereference
      | Some a \<Rightarrow>
          (case objects s a of
             None \<Rightarrow> Inl Use_After_Free
           | Some ob \<Rightarrow>
               (let c = m_ref_count ob - 1 in
                if c = 0 then Inr (s\<lparr>objects := (objects s)(a := None)\<rparr>)
                else Inr (s\<lparr>objects := (objects s)(a \<mapsto> ob\<lparr>m_ref_count := c\<rparr>)\<rparr>))))"

section \<open>\<^verbatim>\<open>intrusive_ptr\<close>\<close>

text \<open>\<^verbatim>\<open>T* get() const\<close>\<close>

definition get :: "store \<Rightarrow> ptr_id \<Rightarrow> addr option" where
  "get s this = m_pointer s this"

text \<open>The private \<^verbatim>\<open>set(T* ptr, bool add_ref)\<close>.\<close>

definition set_ptr :: "ptr_id \<Rightarrow> addr option \<Rightarrow> bool \<Rightarrow> store \<Rightarrow> fault + store" where
  "set_ptr this ptr add_ref s =
     (let s1 = s\<lparr>m_pointer := (m_pointer s)(this := ptr)\<rparr> in
      if ptr \<noteq> None \<and> add_ref then intrusive_ptr_add_ref (m_pointer s1 this) s1
      else Inr s1)"

text \<open>\<^verbatim>\<open>intrusive_ptr() : m_pointer(nullptr)\<close>\<close>

definition intrusive_ptr_empty :: "ptr_id \<Rightarrow> store \<Rightarrow> store" where
  "intrusive_ptr_empty this s = s\<lparr>m_pointer := (m_pointer s)(this := None)\<rparr>"

text \<open>\<^verbatim>\<open>intrusive_ptr(T* ptr, bool add_ref = true)\<close>\<close>

definition intrusive_ptr_raw :: "ptr_id \<Rightarrow> addr option \<Rightarrow> bool \<Rightarrow> store \<Rightarrow> fault + store" where
  "intrusive_ptr_raw this ptr add_ref s = set_ptr this ptr add_ref s"

text \<open>\<^verbatim>\<open>intrusive_ptr(const intrusive_ptr& other)\<close>\<close>

definition intrusive_ptr_copy :: "ptr_id \<Rightarrow> ptr_id \<Rightarrow> store \<Rightarrow> fault + store" where
  "intrusive_ptr_copy this other s = set_ptr this (get s other) True s"

text \<open>\<^verbatim>\<open>T* detach()\<close>: the returned pointer and the store afterwards.\<close>

definition detach :: "ptr_id \<Rightarrow> store \<Rightarrow> addr option \<times> store" where
  "detach this s =
     (let ptr = m_pointer s this in
      (ptr, if ptr \<noteq> None then s\<lparr>m_pointer := (m_pointer s)(this := None)\<rparr> else s))"

text \<open>\<^verbatim>\<open>intrusive_ptr(intrusive_ptr&& other) : m_pointer(other.detach())\<close>\<close>

definition intrusive_ptr_move :: "ptr_id \<Rightarrow> ptr_id \<Rightarrow> store \<Rightarrow> store" where
  "intrusive_ptr_move this other s =
     (case detach other s of (ptr, s1) \<Rightarrow> s1\<lparr>m_pointer := (m_pointer s1)(this := ptr)\<rparr>)"

text \<open>\<^verbatim>\<open>~intrusive_ptr()\<close>\<close>

definition intrusive_ptr_dtor :: "ptr_id \<Rightarrow> store \<Rightarrow> fault + store" where
  "intrusive_ptr_dtor this s =
     (if m_pointer s this \<noteq> None then intrusive_ptr_release (m_pointer s this) s else Inr s)"

text \<open>\<^verbatim>\<open>operator=(const intrusive_ptr& other)\<close>\<close>

definition copy_assign :: "ptr_id \<Rightarrow> ptr_id \<Rightarrow> store \<Rightarrow> store" where
  "copy_assign this other s =
     (if this = other then s
      else s\<lparr>m_pointer := (m_pointer s)(this := get s other)\<rparr>)"

text \<open>
  \<^verbatim>\<open>operator=(intrusive_ptr&& other)\<close> has no definition here. Its body is
  \<^verbatim>\<open>if (this == &other) return *this;  m_pointer = std::move(other);  return *this;\<close>
  and the right-hand side of the assignment is the \<^verbatim>\<open>intrusive_ptr\<close> itself, which the
  class cannot convert to \<^verbatim>\<open>T*\<close> (its only conversion is the explicit
  \<^verbatim>\<open>operator bool\<close>). The member is ill-typed: no program that move-assigns compiles
  (the test suite only move-constructs), so there is no behaviour to embed.
\<close>

text \<open>\<^verbatim>\<open>operator==\<close> and \<^verbatim>\<open>operator!=\<close>\<close>

definition op_eq :: "store \<Rightarrow> ptr_id \<Rightarrow> ptr_id \<Rightarrow> bool" where
  "op_eq s this other = (m_pointer s this = get s other)"

definition op_ne :: "store \<Rightarrow> ptr_id \<Rightarrow> ptr_id \<Rightarrow> bool" where
  "op_ne s this other = (\<not> op_eq s this other)"

text \<open>\<^verbatim>\<open>void reset(T* ptr, bool add_ref = true)\<close>\<close>

definition reset :: "ptr_id \<Rightarrow> addr option \<Rightarrow> bool \<Rightarrow> store \<Rightarrow> fault + store" where
  "reset this ptr add_ref s =
     (let old_ptr = m_pointer s this in
      case set_ptr this ptr add_ref s of
        Inl e \<Rightarrow> Inl e
      | Inr s1 \<Rightarrow> if old_ptr \<noteq> None then intrusive_ptr_release old_ptr s1 else Inr s1)"

text \<open>
  \<^verbatim>\<open>void swap(intrusive_ptr& other) { std::swap(*m_pointer, *other.get()); }\<close>
  Both pointers are dereferenced and \<^verbatim>\<open>std::swap\<close> exchanges the two objects
  themselves: \<^verbatim>\<open>Object\<close> declares a destructor and no copy or move operation, so the
  implicit copy constructor and copy assignment do the three assignments of
  \<^verbatim>\<open>std::swap\<close>, and they copy the base subobject's \<^verbatim>\<open>m_ref_count\<close> along with
  \<^verbatim>\<open>Value\<close>. No \<^verbatim>\<open>m_pointer\<close> is written.
\<close>

definition swap :: "ptr_id \<Rightarrow> ptr_id \<Rightarrow> store \<Rightarrow> fault + store" where
  "swap this other s =
     (case m_pointer s this of
        None \<Rightarrow> Inl Null_Dereference
      | Some a \<Rightarrow>
          (case get s other of
             None \<Rightarrow> Inl Null_Dereference
           | Some b \<Rightarrow>
               (case (objects s a, objects s b) of
                  (Some oa, Some ob) \<Rightarrow> Inr (s\<lparr>objects := (objects s)(a \<mapsto> ob, b \<mapsto> oa)\<rparr>)
                | _ \<Rightarrow> Inl Use_After_Free)))"

text \<open>\<^verbatim>\<open>uint32_t use_count() const\<close>\<close>

definition use_count :: "ptr_id \<Rightarrow> store \<Rightarrow> fault + 32 word" where
  "use_count this s =
     (case m_pointer s this of
        None \<Rightarrow> Inr 0
      | Some a \<Rightarrow>
          (case objects s a of
             None \<Rightarrow> Inl Use_After_Free
           | Some ob \<Rightarrow> Inr (ReferenceCount ob)))"

text \<open>
  \<^verbatim>\<open>make_intrusive<T>(args...)\<close>: \<^verbatim>\<open>new T(args...)\<close> at the allocator's address \<open>a\<close>,
  wrapped by the raw-pointer constructor into the returned instance \<open>this\<close>.
\<close>

definition make_intrusive :: "ptr_id \<Rightarrow> addr \<Rightarrow> 32 word \<Rightarrow> store \<Rightarrow> fault + store" where
  "make_intrusive this a v s = intrusive_ptr_raw this (Some a) True (new_Object a v s)"

text \<open>The store before anything is allocated or constructed.\<close>

definition empty_store :: store where
  "empty_store = \<lparr>objects = Map.empty, m_pointer = (\<lambda>_. None)\<rparr>"

text \<open>
  The counter of the object at an address, read through \<^verbatim>\<open>ReferenceCount()\<close>;
  \<open>None\<close> when no live object is there.
\<close>

definition count_at :: "store \<Rightarrow> addr \<Rightarrow> 32 word option" where
  "count_at s a = map_option ReferenceCount (objects s a)"

section \<open>Running operations in sequence, and the stores of the examples\<close>

text \<open>A fault ends the run, as undefined behaviour ends what can be said of the program.\<close>

definition and_then :: "fault + 'a \<Rightarrow> ('a \<Rightarrow> fault + 'b) \<Rightarrow> fault + 'b" where
  "and_then r f = (case r of Inl e \<Rightarrow> Inl e | Inr x \<Rightarrow> f x)"

text \<open>
  The copy constructor \<^verbatim>\<open>Object(const Object&)\<close>. Neither \<^verbatim>\<open>RefCountObject\<close> nor
  \<^verbatim>\<open>Object\<close> declares one, so it is the implicit one: it copies every member, the
  base's \<^verbatim>\<open>m_ref_count\<close> included (the initializer \<^verbatim>\<open>{ 0 }\<close> is not used). It
  is what \<^verbatim>\<open>std::swap\<close> builds its temporary with.
\<close>

definition Object_copy_ctor :: "Object \<Rightarrow> Object" where
  "Object_copy_ctor src = \<lparr>m_ref_count = m_ref_count src, Value = Value src\<rparr>"

text \<open>\<^verbatim>\<open>new Object(*ptr)\<close> at the allocator's address \<open>a\<close>.\<close>

definition new_Object_copy :: "addr \<Rightarrow> addr option \<Rightarrow> store \<Rightarrow> fault + store" where
  "new_Object_copy a ptr s =
     (case ptr of
        None \<Rightarrow> Inl Null_Dereference
      | Some b \<Rightarrow>
          (case objects s b of
             None \<Rightarrow> Inl Use_After_Free
           | Some src \<Rightarrow> Inr (s\<lparr>objects := (objects s)(a \<mapsto> Object_copy_ctor src)\<rparr>)))"

text \<open>
  \<^verbatim>\<open>make_intrusive<Object>(*other)\<close>: the factory with \<^verbatim>\<open>Args = Object\<close>, so that
  \<^verbatim>\<open>new T(args...)\<close> is the copy constructor, on the object \<^verbatim>\<open>other\<close> points to.
\<close>

definition make_intrusive_copy :: "ptr_id \<Rightarrow> addr \<Rightarrow> ptr_id \<Rightarrow> store \<Rightarrow> fault + store" where
  "make_intrusive_copy this a other s =
     and_then (new_Object_copy a (get s other) s) (intrusive_ptr_raw this (Some a) True)"

text \<open>\<^verbatim>\<open>auto p1 = make_intrusive<Object>(40);\<close> with the object at address 10.\<close>

definition one_owner :: store where
  "one_owner =
     \<lparr>objects = [10 \<mapsto> \<lparr>m_ref_count = 1, Value = 40\<rparr>],
      m_pointer = (\<lambda>_. None)(1 := Some 10)\<rparr>"

text \<open>
  \<^verbatim>\<open>auto p1 = make_intrusive<Object>(18); auto p2 = make_intrusive<Object>(81);\<close>
  (the arrangement of the test \<^verbatim>\<open>SwapPtr_Success\<close>), objects at 10 and 20.
\<close>

definition two_owners :: store where
  "two_owners =
     \<lparr>objects = [10 \<mapsto> \<lparr>m_ref_count = 1, Value = 18\<rparr>,
                 20 \<mapsto> \<lparr>m_ref_count = 1, Value = 81\<rparr>],
      m_pointer = (\<lambda>_. None)(1 := Some 10, 2 := Some 20)\<rparr>"

text \<open>The same, followed by \<^verbatim>\<open>auto p3 = p1;\<close>\<close>

definition shared_and_sole :: store where
  "shared_and_sole =
     \<lparr>objects = [10 \<mapsto> \<lparr>m_ref_count = 2, Value = 18\<rparr>,
                 20 \<mapsto> \<lparr>m_ref_count = 1, Value = 81\<rparr>],
      m_pointer = (\<lambda>_. None)(1 := Some 10, 2 := Some 20, 3 := Some 10)\<rparr>"

text \<open>
  \<^verbatim>\<open>auto p1 = make_intrusive<Object>(40); auto p2 = p1; auto p3 = make_intrusive<Object>(40);\<close>
  (the arrangement of the test \<^verbatim>\<open>ComparePtr_Success\<close>).
\<close>

definition twin_values :: store where
  "twin_values =
     \<lparr>objects = [10 \<mapsto> \<lparr>m_ref_count = 2, Value = 40\<rparr>,
                 20 \<mapsto> \<lparr>m_ref_count = 1, Value = 40\<rparr>],
      m_pointer = (\<lambda>_. None)(1 := Some 10, 2 := Some 10, 3 := Some 20)\<rparr>"

section \<open>Basic facts\<close>

lemmas ptr_defs = get_def set_ptr_def intrusive_ptr_raw_def intrusive_ptr_copy_def detach_def
  intrusive_ptr_move_def intrusive_ptr_dtor_def copy_assign_def op_eq_def op_ne_def reset_def
  swap_def use_count_def make_intrusive_def intrusive_ptr_empty_def

lemmas obj_defs = Object_ctor_def new_Object_def ReferenceCount_def intrusive_ptr_add_ref_def
  intrusive_ptr_release_def count_at_def empty_store_def

lemma and_then_simps [simp]:
  "and_then (Inl e) f = Inl e"
  "and_then (Inr x) f = f x"
  by (simp_all add: and_then_def)

text \<open>The example stores are what the constructors and the factory produce.\<close>

lemma one_owner_reached: "make_intrusive 1 10 40 empty_store = Inr one_owner"
  by (simp add: ptr_defs obj_defs one_owner_def)

lemma two_owners_reached:
  "and_then (make_intrusive 1 10 18 empty_store) (make_intrusive 2 20 81) = Inr two_owners"
  by (simp add: ptr_defs obj_defs two_owners_def fun_upd_twist)

lemma shared_and_sole_reached:
  "and_then (make_intrusive 1 10 18 empty_store)
     (\<lambda>s. and_then (make_intrusive 2 20 81 s) (intrusive_ptr_copy 3 1)) = Inr shared_and_sole"
  by (simp add: ptr_defs obj_defs shared_and_sole_def fun_upd_twist)

lemma twin_values_reached:
  "and_then (make_intrusive 1 10 40 empty_store)
     (\<lambda>s. and_then (intrusive_ptr_copy 2 1 s) (make_intrusive 3 20 40)) = Inr twin_values"
  by (simp add: ptr_defs obj_defs twin_values_def fun_upd_twist)

lemma add_ref_live:
  "objects s a = Some ob \<Longrightarrow>
   intrusive_ptr_add_ref (Some a) s =
     Inr (s\<lparr>objects := (objects s)(a \<mapsto> ob\<lparr>m_ref_count := m_ref_count ob + 1\<rparr>)\<rparr>)"
  by (simp add: intrusive_ptr_add_ref_def)

lemma release_live:
  "objects s a = Some ob \<Longrightarrow>
   intrusive_ptr_release (Some a) s =
     (if m_ref_count ob - 1 = 0 then Inr (s\<lparr>objects := (objects s)(a := None)\<rparr>)
      else Inr (s\<lparr>objects := (objects s)(a \<mapsto> ob\<lparr>m_ref_count := m_ref_count ob - 1\<rparr>)\<rparr>))"
  by (simp add: intrusive_ptr_release_def Let_def)

lemma set_ptr_null:
  "set_ptr p None add_ref s = Inr (s\<lparr>m_pointer := (m_pointer s)(p := None)\<rparr>)"
  by (simp add: set_ptr_def)

lemma set_ptr_live:
  "objects s b = Some ob \<Longrightarrow>
   set_ptr p (Some b) True s =
     Inr (s\<lparr>m_pointer := (m_pointer s)(p := Some b),
            objects := (objects s)(b \<mapsto> ob\<lparr>m_ref_count := m_ref_count ob + 1\<rparr>)\<rparr>)"
  by (simp add: set_ptr_def add_ref_live)

lemma set_ptr_slots:
  "set_ptr p ptr add_ref s = Inr s' \<Longrightarrow> m_pointer s' = (m_pointer s)(p := ptr)"
  by (auto simp: set_ptr_def Let_def intrusive_ptr_add_ref_def split: if_splits option.splits)

section \<open>Claims\<close>

subsection \<open>C1: copy assignment\<close>

text \<open>
  Claim C1 says that after \<^verbatim>\<open>p = q\<close> between distinct instances the slot of \<open>p\<close> is the
  raw pointer of \<open>q\<close>, that \<^verbatim>\<open>intrusive_ptr_add_ref\<close> was called once for the new share
  if that pointer is not null, that \<open>p\<close> released what it held before, and that
  \<^verbatim>\<open>p = p\<close> changes nothing.
  The operator stores the pointer and touches no counter. With \<open>p\<close> (instance 1) the sole
  owner of the object at 10 and \<open>q\<close> (instance 2) the sole owner of the object at 20,
  after \<^verbatim>\<open>p = q\<close> both slots hold 20, the counter at 20 is still 1 (two owners), the
  object at 10 is still alive with counter 1 (no owner), and running the two destructors
  releases the object at 20 twice: the second release reads a deleted object.
\<close>

theorem copy_assign_touches_no_counter:
  "get (copy_assign 1 2 two_owners) 1 = Some 20
   \<and> get (copy_assign 1 2 two_owners) 2 = Some 20
   \<and> count_at two_owners 20 = Some 1
   \<and> count_at (copy_assign 1 2 two_owners) 20 = Some 1
   \<and> count_at two_owners 10 = Some 1
   \<and> count_at (copy_assign 1 2 two_owners) 10 = Some 1
   \<and> objects (copy_assign 1 2 two_owners) = objects two_owners
   \<and> copy_assign 1 1 two_owners = two_owners
   \<and> and_then (intrusive_ptr_dtor 1 (copy_assign 1 2 two_owners)) (intrusive_ptr_dtor 2)
       = Inl Use_After_Free"
  by (simp add: copy_assign_def two_owners_def get_def count_at_def ReferenceCount_def
      intrusive_ptr_dtor_def intrusive_ptr_release_def)

subsection \<open>C2: swap\<close>

text \<open>
  Claim C2 says that after \<^verbatim>\<open>p1.swap(p2)\<close> the slot of \<open>p1\<close> holds the raw pointer
  \<open>p2\<close> held and the other way round, and that neither object's counter changes.
  The function exchanges the two objects' contents, the counters included, and leaves both
  slots as they were. In the arrangement of the test \<^verbatim>\<open>SwapPtr_Success\<close> the slots still
  hold 10 and 20 afterwards. With a third pointer sharing the object at 10 (counter 2,
  the object at 20 has counter 1), the swap leaves the counter 1 at 10 and the counter 2
  at 20.
\<close>

theorem swap_exchanges_the_pointees:
  "swap 1 2 two_owners =
     Inr \<lparr>objects = [10 \<mapsto> \<lparr>m_ref_count = 1, Value = 81\<rparr>,
                     20 \<mapsto> \<lparr>m_ref_count = 1, Value = 18\<rparr>],
          m_pointer = (\<lambda>_. None)(1 := Some 10, 2 := Some 20)\<rparr>
   \<and> get two_owners 1 = Some 10 \<and> get two_owners 2 = Some 20
   \<and> swap 1 2 shared_and_sole =
     Inr \<lparr>objects = [10 \<mapsto> \<lparr>m_ref_count = 1, Value = 81\<rparr>,
                     20 \<mapsto> \<lparr>m_ref_count = 2, Value = 18\<rparr>],
          m_pointer = (\<lambda>_. None)(1 := Some 10, 2 := Some 20, 3 := Some 10)\<rparr>
   \<and> count_at shared_and_sole 10 = Some 2 \<and> count_at shared_and_sole 20 = Some 1"
  by (simp add: swap_def two_owners_def shared_and_sole_def get_def count_at_def
      ReferenceCount_def)

subsection \<open>C4: reset\<close>

lemma reset_null_live:
  assumes "m_pointer s p = Some a" and "objects s a = Some oa"
  shows "reset p None add_ref s =
     (if m_ref_count oa - 1 = 0
      then Inr (s\<lparr>m_pointer := (m_pointer s)(p := None), objects := (objects s)(a := None)\<rparr>)
      else Inr (s\<lparr>m_pointer := (m_pointer s)(p := None),
                  objects := (objects s)(a \<mapsto> oa\<lparr>m_ref_count := m_ref_count oa - 1\<rparr>)\<rparr>))"
  using assms by (simp add: reset_def set_ptr_null release_live)

lemma reset_other_live:
  assumes "m_pointer s p = Some a" and "objects s a = Some oa" and "objects s b = Some ob"
    and "b \<noteq> a"
  shows "reset p (Some b) True s =
     (if m_ref_count oa - 1 = 0
      then Inr (s\<lparr>m_pointer := (m_pointer s)(p := Some b),
                  objects := (objects s)(b \<mapsto> ob\<lparr>m_ref_count := m_ref_count ob + 1\<rparr>, a := None)\<rparr>)
      else Inr (s\<lparr>m_pointer := (m_pointer s)(p := Some b),
                  objects := (objects s)(b \<mapsto> ob\<lparr>m_ref_count := m_ref_count ob + 1\<rparr>,
                                         a \<mapsto> oa\<lparr>m_ref_count := m_ref_count oa - 1\<rparr>)\<rparr>))"
  using assms by (simp add: reset_def set_ptr_live release_live)

lemma reset_same_live:
  assumes "m_pointer s p = Some a" and "objects s a = Some oa"
  shows "reset p (Some a) True s =
     (if m_ref_count oa = 0
      then Inr (s\<lparr>m_pointer := (m_pointer s)(p := Some a), objects := (objects s)(a := None)\<rparr>)
      else Inr (s\<lparr>m_pointer := (m_pointer s)(p := Some a),
                  objects := (objects s)(a \<mapsto> oa)\<rparr>))"
  using assms by (simp add: reset_def set_ptr_live release_live)

text \<open>
  Claim C4: a pointer \<open>p\<close> holds the live object \<open>A\<close> (at \<open>a\<close>), and \<^verbatim>\<open>p.reset(B)\<close> is
  called with the default increment, \<open>B\<close> being null or a live object. The call returns
  and \<^verbatim>\<open>get()\<close> is \<open>B\<close>. \<open>B\<close> is acquired first: where \<open>B\<close> is another object its counter
  is one more than before and \<^verbatim>\<open>use_count()\<close> reads it. Then \<open>A\<close> is released: its
  counter, as the acquisition left it, goes down by one, and \<open>A\<close> is destroyed exactly when
  that gives 0. Where \<open>B\<close> is \<open>A\<close> itself that counter is the old one plus one, so an object
  whose counter was 1 is not destroyed and is left as it was. No other object and no other
  pointer changes.
\<close>

theorem reset_acquires_then_releases:
  assumes "get s p = Some a" and "objects s a = Some oa"
    and "\<forall>b. bp = Some b \<longrightarrow> objects s b \<noteq> None"
  shows "\<exists>s'. reset p bp True s = Inr s' \<and> get s' p = bp
    \<and> (bp = None \<longrightarrow> use_count p s' = Inr 0)
    \<and> (\<forall>b ob. bp = Some b \<and> b \<noteq> a \<and> objects s b = Some ob \<longrightarrow>
          count_at s' b = Some (ReferenceCount ob + 1)
          \<and> use_count p s' = Inr (ReferenceCount ob + 1))
    \<and> (bp \<noteq> Some a \<longrightarrow>
          (objects s' a = None) = (ReferenceCount oa - 1 = 0)
          \<and> (ReferenceCount oa - 1 \<noteq> 0 \<longrightarrow> count_at s' a = Some (ReferenceCount oa - 1)))
    \<and> (bp = Some a \<longrightarrow>
          (objects s' a = None) = ((ReferenceCount oa + 1) - 1 = 0)
          \<and> ((ReferenceCount oa + 1) - 1 \<noteq> 0 \<longrightarrow>
               count_at s' a = Some ((ReferenceCount oa + 1) - 1)
               \<and> use_count p s' = Inr ((ReferenceCount oa + 1) - 1)))
    \<and> (bp = Some a \<and> ReferenceCount oa = 1 \<longrightarrow> objects s' a = Some oa)
    \<and> (\<forall>x. x \<noteq> a \<and> bp \<noteq> Some x \<longrightarrow> objects s' x = objects s x)
    \<and> (\<forall>q. q \<noteq> p \<longrightarrow> get s' q = get s q)"
proof -
  have slot: "m_pointer s p = Some a"
    using assms(1) by (simp add: get_def)
  show ?thesis
  proof (cases bp)
    case None
    then show ?thesis
      using reset_null_live [OF slot assms(2), of True]
      by (simp add: get_def use_count_def count_at_def ReferenceCount_def)
  next
    case (Some b)
    show ?thesis
    proof (cases "b = a")
      case True
      then show ?thesis
        using Some reset_same_live [OF slot assms(2)] assms(2)
        by (simp add: get_def use_count_def count_at_def ReferenceCount_def)
    next
      case False
      from assms(3) Some obtain ob where ob: "objects s b = Some ob"
        by auto
      show ?thesis
        using Some False ob reset_other_live [OF slot assms(2) ob False]
        by (simp add: get_def use_count_def count_at_def ReferenceCount_def)
    qed
  qed
qed

text \<open>
  On the test's arrangement: resetting \<open>p1\<close> to the other object, to its own object, and
  to null.
\<close>

theorem reset_acquires_then_releases_witness:
  "get two_owners 1 = Some 10
   \<and> objects two_owners 10 = Some \<lparr>m_ref_count = 1, Value = 18\<rparr>
   \<and> objects two_owners 20 = Some \<lparr>m_ref_count = 1, Value = 81\<rparr>
   \<and> (\<exists>s'. reset 1 (Some 20) True two_owners = Inr s' \<and> get s' 1 = Some 20
         \<and> count_at s' 20 = Some 2 \<and> use_count 1 s' = Inr 2 \<and> objects s' 10 = None)
   \<and> (\<exists>s'. reset 1 (Some 10) True two_owners = Inr s' \<and> get s' 1 = Some 10
         \<and> objects s' 10 = Some \<lparr>m_ref_count = 1, Value = 18\<rparr> \<and> use_count 1 s' = Inr 1)
   \<and> (\<exists>s'. reset 1 None True two_owners = Inr s' \<and> get s' 1 = None
         \<and> use_count 1 s' = Inr 0 \<and> objects s' 10 = None)"
  using reset_acquires_then_releases [of two_owners 1 10 "\<lparr>m_ref_count = 1, Value = 18\<rparr>" "Some 20"]
    reset_acquires_then_releases [of two_owners 1 10 "\<lparr>m_ref_count = 1, Value = 18\<rparr>" "Some 10"]
    reset_acquires_then_releases [of two_owners 1 10 "\<lparr>m_ref_count = 1, Value = 18\<rparr>" "None"]
  by (auto simp: two_owners_def get_def ReferenceCount_def)

subsection \<open>C5: the counter\<close>

text \<open>
  What holds: an object made by the value constructor has counter 0. On a live object,
  \<^verbatim>\<open>intrusive_ptr_add_ref\<close> returns with the counter one higher (in 32-bit arithmetic;
  the number itself is one higher unless the counter was at its maximum), and
  \<^verbatim>\<open>intrusive_ptr_release\<close> returns with the object deleted exactly when the
  decremented counter is 0, and with the counter one lower otherwise. Neither touches
  another object or any pointer.
\<close>

lemma counter_on_live_object:
  assumes "objects s a = Some ob"
  shows "count_at (new_Object a' v s) a' = Some 0
    \<and> (\<exists>s'. intrusive_ptr_add_ref (Some a) s = Inr s'
          \<and> count_at s' a = Some (ReferenceCount ob + 1)
          \<and> (ReferenceCount ob \<noteq> - 1 \<longrightarrow>
               map_option unat (count_at s' a) = Some (unat (ReferenceCount ob) + 1))
          \<and> (\<forall>x. x \<noteq> a \<longrightarrow> objects s' x = objects s x)
          \<and> m_pointer s' = m_pointer s)
    \<and> (\<exists>s'. intrusive_ptr_release (Some a) s = Inr s'
          \<and> (objects s' a = None) = (ReferenceCount ob - 1 = 0)
          \<and> (ReferenceCount ob - 1 \<noteq> 0 \<longrightarrow> count_at s' a = Some (ReferenceCount ob - 1))
          \<and> (ReferenceCount ob - 1 \<noteq> 0 \<and> ReferenceCount ob \<noteq> 0 \<longrightarrow>
               map_option unat (count_at s' a) = Some (unat (ReferenceCount ob) - 1))
          \<and> (\<forall>x. x \<noteq> a \<longrightarrow> objects s' x = objects s x)
          \<and> m_pointer s' = m_pointer s)"
proof -
  have up: "m_ref_count ob \<noteq> - 1 \<Longrightarrow> unat (m_ref_count ob + 1) = unat (m_ref_count ob) + 1"
    by (metis Suc_eq_plus1 add.commute add_eq_0_iff2 unatSuc)
  have down: "m_ref_count ob \<noteq> 0 \<Longrightarrow> unat (m_ref_count ob - 1) = unat (m_ref_count ob) - 1"
    by (simp add: unat_minus_one)
  show ?thesis
    using assms up down
    by (simp add: add_ref_live release_live count_at_def new_Object_def Object_ctor_def
        ReferenceCount_def)
qed

text \<open>
  Claim C5 says that the counter of every object is 0 at construction, that
  \<^verbatim>\<open>intrusive_ptr_add_ref\<close> adds 1, and that \<^verbatim>\<open>intrusive_ptr_release\<close> subtracts 1
  and destroys the object through its most-derived type exactly when that gives 0.
  A copy-constructed object starts with the counter of its source. With \<open>p1\<close>
  (instance 1) the sole owner of the object at 10: \<^verbatim>\<open>new Object(*p1)\<close> at 20 has
  counter 1 before any pointer holds it (the value constructor gives 0);
  \<^verbatim>\<open>auto q = make_intrusive<Object>(*p1)\<close> (instance 2) leaves \<^verbatim>\<open>q.use_count()\<close> at 2 with
  \<open>q\<close> the only owner; and when \<open>q\<close> is destroyed the object at 20 stays alive with
  counter 1 and no owner.
\<close>

theorem copy_constructed_counter_is_copied:
  "count_at (new_Object 20 40 one_owner) 20 = Some 0
   \<and> new_Object_copy 20 (get one_owner 1) one_owner =
       Inr \<lparr>objects = [10 \<mapsto> \<lparr>m_ref_count = 1, Value = 40\<rparr>,
                       20 \<mapsto> \<lparr>m_ref_count = 1, Value = 40\<rparr>],
            m_pointer = (\<lambda>_. None)(1 := Some 10)\<rparr>
   \<and> make_intrusive_copy 2 20 1 one_owner =
       Inr \<lparr>objects = [10 \<mapsto> \<lparr>m_ref_count = 1, Value = 40\<rparr>,
                       20 \<mapsto> \<lparr>m_ref_count = 2, Value = 40\<rparr>],
            m_pointer = (\<lambda>_. None)(1 := Some 10, 2 := Some 20)\<rparr>
   \<and> and_then (make_intrusive_copy 2 20 1 one_owner) (use_count 2) = Inr 2
   \<and> and_then (make_intrusive_copy 2 20 1 one_owner) (intrusive_ptr_dtor 2) =
       Inr \<lparr>objects = [10 \<mapsto> \<lparr>m_ref_count = 1, Value = 40\<rparr>,
                       20 \<mapsto> \<lparr>m_ref_count = 1, Value = 40\<rparr>],
            m_pointer = (\<lambda>_. None)(1 := Some 10, 2 := Some 20)\<rparr>"
  by (simp add: make_intrusive_copy_def new_Object_copy_def Object_copy_ctor_def
      new_Object_def Object_ctor_def one_owner_def get_def count_at_def ReferenceCount_def
      intrusive_ptr_raw_def set_ptr_def intrusive_ptr_add_ref_def use_count_def
      intrusive_ptr_dtor_def intrusive_ptr_release_def)

subsection \<open>C6: detach\<close>

text \<open>
  Claim C6: on a pointer that holds a non-null raw pointer, \<^verbatim>\<open>detach()\<close> returns that
  raw pointer and leaves the pointer empty; no object (so no counter) and no other pointer
  changes. Detaching the sole owner leaves the counter at 1.
\<close>

theorem detach_keeps_counter:
  assumes "get s p = Some a"
  shows "fst (detach p s) = Some a
    \<and> get (snd (detach p s)) p = None
    \<and> objects (snd (detach p s)) = objects s
    \<and> (\<forall>q. q \<noteq> p \<longrightarrow> get (snd (detach p s)) q = get s q)"
  using assms by (simp add: detach_def get_def)

theorem detach_keeps_counter_witness:
  "get one_owner 1 = Some 10
   \<and> fst (detach 1 one_owner) = Some 10
   \<and> get (snd (detach 1 one_owner)) 1 = None
   \<and> count_at one_owner 10 = Some 1
   \<and> count_at (snd (detach 1 one_owner)) 10 = Some 1"
  using detach_keeps_counter [of one_owner 1 10]
  by (simp add: one_owner_def get_def count_at_def ReferenceCount_def)

subsection \<open>C7: move construction\<close>

text \<open>
  Claim C7: \<open>p\<close> holds an object and a new pointer \<open>q\<close> (another instance) is
  move-constructed from it. Then \<open>q\<close> holds what \<open>p\<close> held, \<open>p\<close> is empty, no object
  (so no counter) changes, and \<^verbatim>\<open>q.use_count()\<close> is what \<^verbatim>\<open>p.use_count()\<close> was.
\<close>

theorem move_ctor_transfers:
  assumes "get s p = Some a" and "q \<noteq> p"
  shows "get (intrusive_ptr_move q p s) q = Some a
    \<and> get (intrusive_ptr_move q p s) p = None
    \<and> objects (intrusive_ptr_move q p s) = objects s
    \<and> use_count q (intrusive_ptr_move q p s) = use_count p s"
  using assms by (simp add: intrusive_ptr_move_def detach_def get_def use_count_def)

theorem move_ctor_transfers_witness:
  "get one_owner 1 = Some 10 \<and> (2::nat) \<noteq> 1
   \<and> get (intrusive_ptr_move 2 1 one_owner) 2 = Some 10
   \<and> get (intrusive_ptr_move 2 1 one_owner) 1 = None
   \<and> use_count 2 (intrusive_ptr_move 2 1 one_owner) = Inr 1
   \<and> count_at (intrusive_ptr_move 2 1 one_owner) 10 = Some 1"
  using move_ctor_transfers [of one_owner 1 10 2]
  by (simp add: one_owner_def get_def count_at_def ReferenceCount_def use_count_def)

subsection \<open>C8: copy construction\<close>

text \<open>
  Claim C8: \<open>p\<close> holds a non-null raw pointer and \<^verbatim>\<open>p.use_count()\<close> is \<open>n\<close>. Copy
  constructing \<open>q\<close> from \<open>p\<close> returns, \<^verbatim>\<open>use_count()\<close> is \<open>n + 1\<close> (in 32-bit
  arithmetic) through \<open>p\<close> and through \<open>q\<close>, and both hold the same raw pointer.
\<close>

theorem copy_ctor_shares:
  assumes "get s p = Some a" and "use_count p s = Inr n"
  shows "\<exists>s'. intrusive_ptr_copy q p s = Inr s'
    \<and> use_count p s' = Inr (n + 1) \<and> use_count q s' = Inr (n + 1)
    \<and> get s' p = Some a \<and> get s' q = Some a"
proof -
  from assms obtain ob where live: "objects s a = Some ob" and n: "m_ref_count ob = n"
    by (auto simp: use_count_def get_def ReferenceCount_def split: option.splits)
  let ?s1 = "s\<lparr>m_pointer := (m_pointer s)(q := Some a)\<rparr>"
  have "objects ?s1 a = Some ob"
    using live by simp
  then have "intrusive_ptr_copy q p s =
      Inr (?s1\<lparr>objects := (objects ?s1)(a \<mapsto> ob\<lparr>m_ref_count := m_ref_count ob + 1\<rparr>)\<rparr>)"
    using assms(1) by (simp add: intrusive_ptr_copy_def set_ptr_def add_ref_live)
  then show ?thesis
    using assms(1) n by (simp add: use_count_def get_def ReferenceCount_def)
qed

theorem copy_ctor_shares_witness:
  "get one_owner 1 = Some 10 \<and> use_count 1 one_owner = Inr 1
   \<and> (\<exists>s'. intrusive_ptr_copy 2 1 one_owner = Inr s'
         \<and> use_count 1 s' = Inr 2 \<and> use_count 2 s' = Inr 2
         \<and> get s' 1 = Some 10 \<and> get s' 2 = Some 10)"
  using copy_ctor_shares [of one_owner 1 10 1 2]
  by (simp add: one_owner_def get_def use_count_def ReferenceCount_def)

subsection \<open>C9: equality\<close>

lemma copies_compare_equal:
  assumes "intrusive_ptr_copy q1 src s = Inr s1" and "intrusive_ptr_copy q2 src s1 = Inr s2"
  shows "m_pointer s2 q1 = m_pointer s2 q2"
proof -
  have one: "m_pointer s1 = (m_pointer s)(q1 := m_pointer s src)"
    using assms(1) by (simp add: intrusive_ptr_copy_def get_def set_ptr_slots)
  have two: "m_pointer s2 = (m_pointer s1)(q2 := m_pointer s1 src)"
    using assms(2) by (simp add: intrusive_ptr_copy_def get_def set_ptr_slots)
  show ?thesis
    by (simp add: one two)
qed

text \<open>
  Claim C9: \<^verbatim>\<open>operator==\<close> is true exactly when the two raw pointers are the same, and
  \<^verbatim>\<open>operator!=\<close> is its negation. Two pointers copy-constructed from the same source
  compare equal. Pointers to two different objects compare not equal, whatever the
  objects contain.
\<close>

theorem equality_is_identity:
  "op_eq s p q = (get s p = get s q)
   \<and> op_ne s p q = (\<not> op_eq s p q)
   \<and> (\<forall>s1 s2. intrusive_ptr_copy q1 src s = Inr s1 \<and> intrusive_ptr_copy q2 src s1 = Inr s2
        \<longrightarrow> op_eq s2 q1 q2 \<and> \<not> op_ne s2 q1 q2)
   \<and> (\<forall>a b. get s p = Some a \<and> get s q = Some b \<and> a \<noteq> b
        \<longrightarrow> op_ne s p q \<and> \<not> op_eq s p q)"
  by (auto simp: op_eq_def op_ne_def get_def dest: copies_compare_equal)

text \<open>
  The test \<^verbatim>\<open>ComparePtr_Success\<close>: two copies of \<open>p1\<close> are equal; \<open>p1\<close> and \<open>p3\<close> point
  to different objects with the same \<^verbatim>\<open>Value\<close> and are not equal.
\<close>

theorem equality_is_identity_witness:
  "intrusive_ptr_copy 2 1 one_owner
     = Inr \<lparr>objects = [10 \<mapsto> \<lparr>m_ref_count = 2, Value = 40\<rparr>],
            m_pointer = (\<lambda>_. None)(1 := Some 10, 2 := Some 10)\<rparr>
   \<and> intrusive_ptr_copy 3 1 \<lparr>objects = [10 \<mapsto> \<lparr>m_ref_count = 2, Value = 40\<rparr>],
            m_pointer = (\<lambda>_. None)(1 := Some 10, 2 := Some 10)\<rparr>
     = Inr \<lparr>objects = [10 \<mapsto> \<lparr>m_ref_count = 3, Value = 40\<rparr>],
            m_pointer = (\<lambda>_. None)(1 := Some 10, 2 := Some 10, 3 := Some 10)\<rparr>
   \<and> op_eq \<lparr>objects = [10 \<mapsto> \<lparr>m_ref_count = 3, Value = 40\<rparr>],
            m_pointer = (\<lambda>_. None)(1 := Some 10, 2 := Some 10, 3 := Some 10)\<rparr> 2 3
   \<and> get twin_values 1 = Some 10 \<and> get twin_values 3 = Some 20 \<and> (10::nat) \<noteq> 20
   \<and> map_option Value (objects twin_values 10) = map_option Value (objects twin_values 20)
   \<and> op_ne twin_values 1 3 \<and> \<not> op_eq twin_values 1 3
   \<and> op_eq twin_values 1 2"
  using equality_is_identity [of twin_values 1 3 2 1 3]
    equality_is_identity [of one_owner 1 1 2 1 3]
  by (simp add: one_owner_def twin_values_def get_def intrusive_ptr_copy_def set_ptr_def
      intrusive_ptr_add_ref_def op_eq_def op_ne_def)

subsection \<open>C10: null raw pointers\<close>

text \<open>
  Claim C10: constructing a pointer from a null raw pointer, with either value of
  \<^verbatim>\<open>add_ref\<close>, returns with only that pointer's slot written, to null: \<^verbatim>\<open>get()\<close> is
  null, \<^verbatim>\<open>use_count()\<close> is 0 and no object has changed, so neither free function ran.
  \<^verbatim>\<open>reset(nullptr)\<close> empties the slot and does nothing else but release the raw pointer
  held before, if there was one; where it returns, the pointer is empty.
\<close>

theorem null_is_never_counted:
  "intrusive_ptr_raw p None add_ref s = Inr (s\<lparr>m_pointer := (m_pointer s)(p := None)\<rparr>)
   \<and> (\<forall>s'. intrusive_ptr_raw p None add_ref s = Inr s' \<longrightarrow>
         get s' p = None \<and> use_count p s' = Inr 0 \<and> objects s' = objects s)
   \<and> reset p None add_ref s =
        (if get s p = None then Inr (s\<lparr>m_pointer := (m_pointer s)(p := None)\<rparr>)
         else intrusive_ptr_release (get s p) (s\<lparr>m_pointer := (m_pointer s)(p := None)\<rparr>))
   \<and> (\<forall>s'. reset p None add_ref s = Inr s' \<longrightarrow> get s' p = None \<and> use_count p s' = Inr 0)"
  by (auto simp: intrusive_ptr_raw_def set_ptr_null reset_def get_def use_count_def
      intrusive_ptr_release_def Let_def split: option.splits if_splits)

theorem null_is_never_counted_witness:
  "intrusive_ptr_raw 2 None True one_owner
     = Inr (one_owner\<lparr>m_pointer := (m_pointer one_owner)(2 := None)\<rparr>)
   \<and> intrusive_ptr_raw 2 None False one_owner
     = Inr (one_owner\<lparr>m_pointer := (m_pointer one_owner)(2 := None)\<rparr>)
   \<and> count_at (one_owner\<lparr>m_pointer := (m_pointer one_owner)(2 := None)\<rparr>) 10 = Some 1
   \<and> use_count 2 (one_owner\<lparr>m_pointer := (m_pointer one_owner)(2 := None)\<rparr>) = Inr 0
   \<and> reset 1 None True one_owner = Inr \<lparr>objects = Map.empty, m_pointer = (\<lambda>_. None)\<rparr>
   \<and> get \<lparr>objects = Map.empty, m_pointer = (\<lambda>_. None)\<rparr> 1 = None"
proof -
  note raw_t = null_is_never_counted [of 2 True one_owner, THEN conjunct1]
  note raw_f = null_is_never_counted [of 2 False one_owner, THEN conjunct1]
  note rst = null_is_never_counted [of 1 True one_owner, THEN conjunct2, THEN conjunct2,
      THEN conjunct1]
  have held: "get one_owner 1 = Some 10"
    by (simp add: one_owner_def get_def)
  have gone:
    "intrusive_ptr_release (Some 10) (one_owner\<lparr>m_pointer := (m_pointer one_owner)(1 := None)\<rparr>)
      = Inr \<lparr>objects = Map.empty, m_pointer = (\<lambda>_. None)\<rparr>"
    by (simp add: one_owner_def intrusive_ptr_release_def)
  have emptied:
    "reset 1 None True one_owner = Inr \<lparr>objects = Map.empty, m_pointer = (\<lambda>_. None)\<rparr>"
    by (simp only: rst held gone option.simps if_False)
  have kept: "count_at (one_owner\<lparr>m_pointer := (m_pointer one_owner)(2 := None)\<rparr>) 10 = Some 1"
    by (simp add: one_owner_def count_at_def ReferenceCount_def)
  have zero: "use_count 2 (one_owner\<lparr>m_pointer := (m_pointer one_owner)(2 := None)\<rparr>) = Inr 0"
    by (simp add: one_owner_def use_count_def)
  have null: "get \<lparr>objects = Map.empty, m_pointer = (\<lambda>_. None)\<rparr> 1 = None"
    by (simp add: get_def)
  show ?thesis
    by (intro conjI raw_t raw_f emptied kept zero null)
qed

end
